theory Spec2Isabelle
  imports Complex_Main
begin

section \<open>The 3D robot viewer: data model\<close>

text \<open>
  The components \<^verbatim>\<open>RobotBuilder\<close> (two revisions: the file
  \<^verbatim>\<open>src/components/RobotBuilder.tsx\<close> and the later one that adds
  \<^verbatim>\<open>getRotationDirection\<close>) and \<^verbatim>\<open>RobotScene\<close> keep their interaction state in
  React hooks and mutate three.js objects. The embedding passes that state explicitly.

  JavaScript numbers are modelled as real numbers (finite doubles, rounding left out);
  a colour is the hex string that \<^verbatim>\<open>getHexString\<close> returns and that
  \<^verbatim>\<open>Color.set\<close> reads back; object references are addresses of a store.
\<close>

type_synonym ref = nat
type_synonym color = string

datatype Vector3 = Vector3 real real real

fun vec_z :: "Vector3 \<Rightarrow> real" where
  "vec_z (Vector3 a b c) = c"

fun dot :: "Vector3 \<Rightarrow> Vector3 \<Rightarrow> real" where
  "dot (Vector3 a b c) (Vector3 a' b' c') = a * a' + b * b' + c * c'"

datatype Quaternion = Quaternion real real real real

record Limit =
  lower :: real
  upper :: real

text \<open>
  One record for every node of the scene graph. A mesh uses \<open>material\<close> (the address of
  its material's colour), a \<^verbatim>\<open>URDFJoint\<close> uses \<open>jointValue\<close>, \<open>limit\<close>, \<open>axis\<close> and
  \<open>quaternion\<close>; the casts of the source (\<^verbatim>\<open>as THREE.Mesh\<close>, \<^verbatim>\<open>as URDFJoint\<close>,
  \<^verbatim>\<open>as THREE.MeshPhongMaterial\<close>) are taken at their word.
\<close>

record Object3D =
  type :: string
  name :: string
  parent :: "ref option"
  material :: ref
  jointValue :: "real list"
  limit :: Limit
  axis :: Vector3
  quaternion :: Quaternion

record Camera =
  worldDirection :: Vector3

text \<open>A React \<^verbatim>\<open>useRef\<close> container: an object with the one field \<^verbatim>\<open>current\<close>.\<close>

record 'a Ref =
  current :: 'a

text \<open>A JavaScript object is truthy whatever it holds; so is a ref container.\<close>

definition truthy_object :: "'a Ref \<Rightarrow> bool" where
  "truthy_object r = True"

record URDFRobot =
  joints :: "string \<Rightarrow> ref option"

record MouseEvent =
  clientX :: real

record ThreeEvent = MouseEvent +
  object :: ref

record state =
  robot :: "URDFRobot option"
  selectedJoint :: "string option"
  selectedMesh :: "ref option"
  selectedJointColor :: "color option Ref"
  isDragging :: bool
  isRotating :: bool
  lastMouseX :: "real Ref"
  controlsRef :: "Camera option Ref"
  scene :: "ref \<Rightarrow> Object3D"
  colors :: "ref \<Rightarrow> color"

datatype error = TypeError

text \<open>
  How a handler ends: normally, or by a thrown error. A throw keeps the mutations made
  before it, so it carries the state too.
\<close>

datatype completion = Normal state | Throw error state

fun state_of :: "completion \<Rightarrow> state" where
  "state_of (Normal s) = s"
| "state_of (Throw e s) = s"

section \<open>Library functions the handlers call\<close>

text \<open>
  \<^verbatim>\<open>THREE.MathUtils.clamp(value, min, max)\<close> is
  \<^verbatim>\<open>Math.max(min, Math.min(max, value))\<close>.
\<close>

definition clamp :: "real \<Rightarrow> real \<Rightarrow> real \<Rightarrow> real" where
  "clamp v mn mx = max mn (min mx v)"

text \<open>
  \<^verbatim>\<open>Color.set(value)\<close> of three.js copies a colour or parses a string, and does
  nothing for a value that is neither a colour, a number nor a string, as \<^verbatim>\<open>null\<close> is.
\<close>

definition Color_set :: "color option \<Rightarrow> color \<Rightarrow> color" where
  "Color_set v c = (case v of None \<Rightarrow> c | Some h \<Rightarrow> h)"

text \<open>
  Modelled from the spec: \<^verbatim>\<open>robot.setJointValue(name, angle)\<close> is a method of the
  urdf-loader library, whose code is not in the repository. The spec (section 6) gives
  it as "a method to set a joint's value by name", and so does the model: the angle
  becomes the first value of the named joint, and an unknown name or a joint with no
  value (a fixed joint) changes nothing. The library may do more with the angle (keep
  it within the joint's limits once more, write the other values of a joint with
  several), so the theorems on drag updates state the value a handler passes to the
  method, and the theorems on runs use of the method only that it leaves the materials
  of the parts alone.
\<close>

definition setJointValue :: "URDFRobot \<Rightarrow> string \<Rightarrow> real \<Rightarrow> (ref \<Rightarrow> Object3D) \<Rightarrow> (ref \<Rightarrow> Object3D)" where
  "setJointValue r nm v sc =
     (case joints r nm of
        None \<Rightarrow> sc
      | Some j \<Rightarrow> sc(j := (sc j)\<lparr>jointValue := (jointValue (sc j))[0 := v]\<rparr>))"

text \<open>
  The expression \<^verbatim>\<open>jointValue[0] || 0\<close>: 0 for a missing first value
  (\<^verbatim>\<open>undefined\<close>) and for a first value that is 0.
\<close>

definition first_or_0 :: "real list \<Rightarrow> real" where
  "first_or_0 jv = (case jv of [] \<Rightarrow> 0 | v # vs \<Rightarrow> if v = 0 then 0 else v)"

section \<open>The joint locator\<close>

text \<open>
  \<^verbatim>\<open>findURDFJointFromObject\<close>: the loop \<^verbatim>\<open>while (current)\<close> follows \<^verbatim>\<open>parent\<close>
  references, which the store does not force to end. The result \<open>None\<close> means the loop
  does not return; \<open>Some None\<close> is the JavaScript \<^verbatim>\<open>null\<close>.
\<close>

partial_function (option) findURDFJointFromObject :: "(ref \<Rightarrow> Object3D) \<Rightarrow> ref option \<Rightarrow> ref option option" where
  "findURDFJointFromObject sc cur =
     (case cur of
        None \<Rightarrow> Some None
      | Some c \<Rightarrow>
          if type (sc c) = ''URDFJoint'' then Some (Some c)
          else findURDFJointFromObject sc (parent (sc c)))"

text \<open>
  \<^verbatim>\<open>findURDJointFromObject\<close> of \<^verbatim>\<open>RobotScene.tsx\<close> is the same loop, line for line.
\<close>

definition findURDJointFromObject :: "(ref \<Rightarrow> Object3D) \<Rightarrow> ref option \<Rightarrow> ref option option" where
  "findURDJointFromObject = findURDFJointFromObject"

text \<open>
  The same loop with a counter of the nodes it inspects (one per run of the loop body),
  to state the cost of the traversal.
\<close>

partial_function (option) findURDFJointFromObject_count :: "(ref \<Rightarrow> Object3D) \<Rightarrow> ref option \<Rightarrow> nat \<Rightarrow> (ref option \<times> nat) option" where
  "findURDFJointFromObject_count sc cur n =
     (case cur of
        None \<Rightarrow> Some (None, n)
      | Some c \<Rightarrow>
          if type (sc c) = ''URDFJoint'' then Some (Some c, Suc n)
          else findURDFJointFromObject_count sc (parent (sc c)) (Suc n))"

text \<open>
  \<open>parentChain sc c xs\<close>: \<open>xs\<close> is the chain of \<open>c\<close> in the store \<open>sc\<close>, from \<open>c\<close> itself
  through its parents up to the root (the node with no parent). Its length is the depth
  of \<open>c\<close> plus one.
\<close>

fun parentChain :: "(ref \<Rightarrow> Object3D) \<Rightarrow> ref \<Rightarrow> ref list \<Rightarrow> bool" where
  "parentChain sc c [] = False"
| "parentChain sc c [x] = (x = c \<and> parent (sc c) = None)"
| "parentChain sc c (x # y # ys) = (x = c \<and> parent (sc c) = Some y \<and> parentChain sc y (y # ys))"

definition isJoint :: "(ref \<Rightarrow> Object3D) \<Rightarrow> ref \<Rightarrow> bool" where
  "isJoint sc c = (type (sc c) = ''URDFJoint'')"

section \<open>The handlers of RobotBuilder\<close>

definition moveableColor :: color where
  "moveableColor = ''ffff00''"

text \<open>
  \<^verbatim>\<open>onPointerOver\<close>: when neither dragging nor rotating, the colour of the hovered mesh
  is stored in \<^verbatim>\<open>selectedJointColor.current\<close> (whatever the joint), and the mesh is
  highlighted when a joint was found and its \<^verbatim>\<open>jointValue\<close> is not empty.
\<close>

definition onPointerOver :: "ThreeEvent \<Rightarrow> state \<Rightarrow> state option" where
  "onPointerOver e s =
     (if \<not> isDragging s \<and> \<not> isRotating s then
        (case findURDFJointFromObject (scene s) (Some (object e)) of
           None \<Rightarrow> None
         | Some joint \<Rightarrow>
             let mesh = object e;
                 mat = material (scene s mesh);
                 s1 = s\<lparr>selectedJointColor := \<lparr>current = Some (colors s mat)\<rparr>\<rparr>
             in Some (case joint of
                        None \<Rightarrow> s1
                      | Some j \<Rightarrow>
                          if length (jointValue (scene s1 j)) \<noteq> 0
                          then s1\<lparr>colors := (colors s1)(mat := moveableColor)\<rparr>
                          else s1))
      else Some s)"

text \<open>
  \<^verbatim>\<open>onPointerOut\<close>: the guard tests \<^verbatim>\<open>selectedJointColor\<close>, the ref container, not
  its \<^verbatim>\<open>current\<close>.
\<close>

definition onPointerOut :: "ThreeEvent \<Rightarrow> state \<Rightarrow> state" where
  "onPointerOut e s =
     (if \<not> isDragging s \<and> truthy_object (selectedJointColor s) then
        let mesh = object e;
            mat = material (scene s mesh)
        in s\<lparr>colors := (colors s)(mat := Color_set (current (selectedJointColor s)) (colors s mat)),
             selectedJointColor := \<lparr>current = None\<rparr>\<rparr>
      else s)"

definition handlePointerDown :: "ThreeEvent \<Rightarrow> state \<Rightarrow> state option" where
  "handlePointerDown e s =
     (case findURDFJointFromObject (scene s) (Some (object e)) of
        None \<Rightarrow> None
      | Some joint \<Rightarrow>
          Some (case joint of
                  None \<Rightarrow> s
                | Some j \<Rightarrow>
                    if length (jointValue (scene s j)) \<noteq> 0
                    then s\<lparr>selectedJoint := Some (name (scene s j)),
                           selectedMesh := Some (object e),
                           isDragging := True,
                           lastMouseX := \<lparr>current = clientX e\<rparr>\<rparr>
                    else s))"

text \<open>
  \<^verbatim>\<open>handlePointerMove\<close>. The guard \<^verbatim>\<open>robot && isDragging && selectedJoint\<close> fails for
  the empty name too (an empty string is falsy). \<^verbatim>\<open>robot.joints[selectedJoint]\<close> may be
  undefined and \<^verbatim>\<open>controlsRef.current\<close> null: reading a property of either throws,
  after \<^verbatim>\<open>lastMouseX.current\<close> was written.
\<close>

definition handlePointerMove :: "MouseEvent \<Rightarrow> state \<Rightarrow> completion" where
  "handlePointerMove e s =
     (case robot s of
        None \<Rightarrow> Normal s
      | Some r \<Rightarrow>
          if \<not> isDragging s then Normal s
          else (case selectedJoint s of
              None \<Rightarrow> Normal s
            | Some nm \<Rightarrow>
                if nm = [] then Normal s
                else
                  let joint = joints r nm;
                      dx = clientX e - current (lastMouseX s);
                      s1 = s\<lparr>lastMouseX := \<lparr>current = clientX e\<rparr>\<rparr>
                  in (case joint of
                        None \<Rightarrow> Throw TypeError s1
                      | Some j \<Rightarrow>
                          let currentValue = first_or_0 (jointValue (scene s1 j))
                          in (case current (controlsRef s1) of
                                None \<Rightarrow> Throw TypeError s1
                              | Some camera \<Rightarrow>
                                  let vector = worldDirection camera;
                                      direction = - sgn (vec_z vector);
                                      sensitivity = 0.01;
                                      newValue = currentValue + dx * sensitivity * direction;
                                      clamped = clamp newValue (lower (limit (scene s1 j)))
                                                  (upper (limit (scene s1 j)))
                                  in Normal (s1\<lparr>scene := setJointValue r nm clamped (scene s1)\<rparr>)))))"

definition handlePointerUp :: "state \<Rightarrow> state" where
  "handlePointerUp s =
     (case selectedMesh s of
        None \<Rightarrow> s
      | Some mesh \<Rightarrow>
          if truthy_object (selectedJointColor s) then
            let mat = material (scene s mesh)
            in s\<lparr>colors := (colors s)(mat := Color_set (current (selectedJointColor s)) (colors s mat)),
                 selectedJointColor := \<lparr>current = None\<rparr>,
                 isDragging := False,
                 selectedJoint := None,
                 selectedMesh := None\<rparr>
          else s)"

text \<open>The prop \<^verbatim>\<open>enableRotate={!isDragging}\<close> of \<^verbatim>\<open>OrbitControls\<close>.\<close>

definition enableRotate :: "state \<Rightarrow> bool" where
  "enableRotate s = (\<not> isDragging s)"

subsection \<open>Events and runs\<close>

text \<open>
  The events the component reacts to: the three pointer handlers of the robot's
  \<^verbatim>\<open>primitive\<close> (mounted only once the robot is loaded), the two window listeners,
  the \<^verbatim>\<open>onStart\<close> and \<^verbatim>\<open>onEnd\<close> callbacks of the orbit controls, the loader's
  callback \<^verbatim>\<open>setRobot(urdf)\<close>, and the orbit controls moving the camera. State
  updates are taken to be in effect when the next event arrives.
\<close>

datatype event =
    PointerOver ThreeEvent
  | PointerOut ThreeEvent
  | PointerDown ThreeEvent
  | MouseMove MouseEvent
  | MouseUp
  | OrbitStart
  | OrbitEnd
  | Loaded URDFRobot
  | CameraMoved Camera

fun step :: "event \<Rightarrow> state \<Rightarrow> state option" where
  "step (PointerOver e) s = (if robot s = None then Some s else onPointerOver e s)"
| "step (PointerOut e) s = (if robot s = None then Some s else Some (onPointerOut e s))"
| "step (PointerDown e) s = (if robot s = None then Some s else handlePointerDown e s)"
| "step (MouseMove e) s = Some (state_of (handlePointerMove e s))"
| "step MouseUp s = Some (handlePointerUp s)"
| "step OrbitStart s = Some (s\<lparr>isRotating := True\<rparr>)"
| "step OrbitEnd s = Some (s\<lparr>isRotating := False\<rparr>)"
| "step (Loaded r) s = Some (s\<lparr>robot := Some r\<rparr>)"
| "step (CameraMoved c) s = Some (s\<lparr>controlsRef := \<lparr>current = Some c\<rparr>\<rparr>)"

fun run :: "event list \<Rightarrow> state \<Rightarrow> state option" where
  "run [] s = Some s"
| "run (ev # evs) s = (case step ev s of None \<Rightarrow> None | Some s' \<Rightarrow> run evs s')"

text \<open>The state after mounting, over a given store, colours and camera.\<close>

definition initialState :: "(ref \<Rightarrow> Object3D) \<Rightarrow> (ref \<Rightarrow> color) \<Rightarrow> Camera \<Rightarrow> state" where
  "initialState sc cl cam =
     \<lparr>robot = None, selectedJoint = None, selectedMesh = None,
      selectedJointColor = \<lparr>current = None\<rparr>, isDragging = False, isRotating = False,
      lastMouseX = \<lparr>current = 0\<rparr>, controlsRef = \<lparr>current = Some cam\<rparr>,
      scene = sc, colors = cl\<rparr>"

text \<open>The states a run passes through, one after each event.\<close>

fun trace :: "event list \<Rightarrow> state \<Rightarrow> state list option" where
  "trace [] s = Some []"
| "trace (ev # evs) s =
     (case step ev s of
        None \<Rightarrow> None
      | Some s' \<Rightarrow> (case trace evs s' of None \<Rightarrow> None | Some tr \<Rightarrow> Some (s' # tr)))"

text \<open>How often orbit rotation goes from disabled to enabled along a list of states.\<close>

fun reenabled :: "state list \<Rightarrow> nat" where
  "reenabled [] = 0"
| "reenabled [s] = 0"
| "reenabled (s # t # ss) =
     (if \<not> enableRotate s \<and> enableRotate t then 1 else 0) + reenabled (t # ss)"

fun isPointerDown :: "event \<Rightarrow> bool" where
  "isPointerDown (PointerDown e) = True"
| "isPointerDown ev = False"

section \<open>The later revision of RobotBuilder\<close>

text \<open>
  \<^verbatim>\<open>getRotationDirection\<close>: \<^verbatim>\<open>-Math.sign(axis.dot(forward)) || 1\<close>, where the axis is
  rotated by the joint's quaternion. \<^verbatim>\<open>applyQuaternion\<close> of three.js is a parameter.
\<close>

definition getRotationDirection :: "(Vector3 \<Rightarrow> Quaternion \<Rightarrow> Vector3) \<Rightarrow> Object3D \<Rightarrow> Camera \<Rightarrow> real" where
  "getRotationDirection applyQuaternion joint camera =
     (let axis' = applyQuaternion (axis joint) (quaternion joint);
          forward = worldDirection camera;
          d = - sgn (dot axis' forward)
      in if d = 0 then 1 else d)"

definition handlePointerMove_rev2 :: "(Vector3 \<Rightarrow> Quaternion \<Rightarrow> Vector3) \<Rightarrow> MouseEvent \<Rightarrow> state \<Rightarrow> completion" where
  "handlePointerMove_rev2 applyQuaternion e s =
     (case robot s of
        None \<Rightarrow> Normal s
      | Some r \<Rightarrow>
          if \<not> isDragging s then Normal s
          else (case selectedJoint s of
              None \<Rightarrow> Normal s
            | Some nm \<Rightarrow>
                if nm = [] then Normal s
                else
                  let joint = joints r nm;
                      dx = clientX e - current (lastMouseX s);
                      s1 = s\<lparr>lastMouseX := \<lparr>current = clientX e\<rparr>\<rparr>
                  in (case joint of
                        None \<Rightarrow> Throw TypeError s1
                      | Some j \<Rightarrow>
                          let currentValue = first_or_0 (jointValue (scene s1 j))
                          in (case current (controlsRef s1) of
                                None \<Rightarrow> Throw TypeError s1
                              | Some camera \<Rightarrow>
                                  let direction = getRotationDirection applyQuaternion (scene s1 j) camera;
                                      sensitivity = 0.01;
                                      newValue = currentValue + dx * sensitivity * direction;
                                      clamped = clamp newValue (lower (limit (scene s1 j)))
                                                  (upper (limit (scene s1 j)))
                                  in Normal (s1\<lparr>scene := setJointValue r nm clamped (scene s1)\<rparr>)))))"

text \<open>
  \<^verbatim>\<open>onPointerOver\<close> of the later revision returns before the capture when no joint
  was found; its highlight colour is \<^verbatim>\<open>#eeee31\<close>.
\<close>

definition moveableColor_rev2 :: color where
  "moveableColor_rev2 = ''eeee31''"

definition onPointerOver_rev2 :: "ThreeEvent \<Rightarrow> state \<Rightarrow> state option" where
  "onPointerOver_rev2 e s =
     (if \<not> isDragging s \<and> \<not> isRotating s then
        (case findURDFJointFromObject (scene s) (Some (object e)) of
           None \<Rightarrow> None
         | Some joint \<Rightarrow>
             (case joint of
                None \<Rightarrow> Some s
              | Some j \<Rightarrow>
                  let mesh = object e;
                      mat = material (scene s mesh);
                      s1 = s\<lparr>selectedJointColor := \<lparr>current = Some (colors s mat)\<rparr>\<rparr>
                  in Some (if length (jointValue (scene s1 j)) \<noteq> 0
                           then s1\<lparr>colors := (colors s1)(mat := moveableColor_rev2)\<rparr>
                           else s1)))
      else Some s)"

section \<open>The handlers of RobotScene\<close>

text \<open>
  \<^verbatim>\<open>RobotScene.tsx\<close> holds an earlier \<^verbatim>\<open>RobotBuilder\<close> with the state \<^verbatim>\<open>robot\<close>,
  \<^verbatim>\<open>selectedJoint\<close>, \<^verbatim>\<open>isDragging\<close> and \<^verbatim>\<open>lastMouseX\<close>; its handlers are given over
  the same state record and leave the other fields alone. \<^verbatim>\<open>handlePointerDown\<close> tests
  \<^verbatim>\<open>robot\<close> and \<^verbatim>\<open>joint\<close> only; \<^verbatim>\<open>handlePointerMove\<close> passes \<^verbatim>\<open>newValue\<close> to
  \<^verbatim>\<open>setJointValue\<close> as it is.
\<close>

definition handlePointerDown_RobotScene :: "ThreeEvent \<Rightarrow> state \<Rightarrow> state option" where
  "handlePointerDown_RobotScene e s =
     (case robot s of
        None \<Rightarrow> Some s
      | Some r \<Rightarrow>
          (case findURDJointFromObject (scene s) (Some (object e)) of
             None \<Rightarrow> None
           | Some joint \<Rightarrow>
               Some (case joint of
                       None \<Rightarrow> s
                     | Some j \<Rightarrow>
                         s\<lparr>selectedJoint := Some (name (scene s j)),
                           isDragging := True,
                           lastMouseX := \<lparr>current = clientX e\<rparr>\<rparr>)))"

definition handlePointerMove_RobotScene :: "MouseEvent \<Rightarrow> state \<Rightarrow> completion" where
  "handlePointerMove_RobotScene e s =
     (if \<not> isDragging s then Normal s
      else (case robot s of
          None \<Rightarrow> Normal s
        | Some r \<Rightarrow>
            (case selectedJoint s of
               None \<Rightarrow> Normal s
             | Some nm \<Rightarrow>
                 if nm = [] then Normal s
                 else
                   let dx = clientX e - current (lastMouseX s);
                       s1 = s\<lparr>lastMouseX := \<lparr>current = clientX e\<rparr>\<rparr>
                   in (case joints r nm of
                         None \<Rightarrow> Throw TypeError s1
                       | Some j \<Rightarrow>
                           let currentValue = first_or_0 (jointValue (scene s1 j));
                               newValue = currentValue + dx * 0.01
                           in Normal (s1\<lparr>scene := setJointValue r nm newValue (scene s1)\<rparr>)))))"

section \<open>A small robot for concrete runs\<close>

text \<open>
  A robot with a root (0), a link (1), the revolute joint \<open>hip\<close> (2) with limits
  \<open>[-1, 1]\<close> and value 0, its link (3) and mesh (4), the fixed joint \<open>mount\<close> (5) with its
  mesh (6), and a mesh (7) that hangs from the root with no joint above it.
\<close>

definition node :: "string \<Rightarrow> string \<Rightarrow> ref option \<Rightarrow> ref \<Rightarrow> real list \<Rightarrow> real \<Rightarrow> real \<Rightarrow> Object3D" where
  "node ty nm p m jv lo up =
     \<lparr>type = ty, name = nm, parent = p, material = m, jointValue = jv,
      limit = \<lparr>lower = lo, upper = up\<rparr>, axis = Vector3 0 0 1, quaternion = Quaternion 0 0 0 1\<rparr>"

definition exampleScene :: "ref \<Rightarrow> Object3D" where
  "exampleScene =
     (\<lambda>i. node ''Object3D'' [] None 0 [] 0 0)
       (0 := node ''URDFRobot'' ''cassie'' None 0 [] 0 0,
        1 := node ''URDFLink'' ''pelvis'' (Some 0) 0 [] 0 0,
        2 := node ''URDFJoint'' ''hip'' (Some 1) 0 [0] (-1) 1,
        3 := node ''URDFLink'' ''thigh'' (Some 2) 0 [] 0 0,
        4 := node ''Mesh'' [] (Some 3) 10 [] 0 0,
        5 := node ''URDFJoint'' ''mount'' (Some 3) 0 [] 0 0,
        6 := node ''Mesh'' [] (Some 5) 11 [] 0 0,
        7 := node ''Mesh'' [] (Some 0) 12 [] 0 0)"

definition exampleColors :: "ref \<Rightarrow> color" where
  "exampleColors = (\<lambda>i. ''cccccc'')(10 := ''aa0000'', 11 := ''00bb00'')"

definition exampleRobot :: URDFRobot where
  "exampleRobot = \<lparr>joints = (\<lambda>n. None)(''hip'' := Some 2, ''mount'' := Some 5)\<rparr>"

definition exampleCamera :: Camera where
  "exampleCamera = \<lparr>worldDirection = Vector3 0 0 (-1)\<rparr>"

text \<open>The example robot loaded, nothing hovered or selected.\<close>

definition idleState :: state where
  "idleState = (initialState exampleScene exampleColors exampleCamera)\<lparr>robot := Some exampleRobot\<rparr>"

text \<open>
  The joint \<open>hip\<close> being dragged by its mesh, with limits \<open>lo\<close> and \<open>up\<close>, the camera
  looking along \<open>fwd\<close>, and the drag anchor at 0.
\<close>

definition dragState :: "real \<Rightarrow> real \<Rightarrow> Vector3 \<Rightarrow> state" where
  "dragState lo up fwd =
     \<lparr>robot = Some exampleRobot, selectedJoint = Some ''hip'', selectedMesh = Some 4,
      selectedJointColor = \<lparr>current = Some ''aa0000''\<rparr>, isDragging = True, isRotating = False,
      lastMouseX = \<lparr>current = 0\<rparr>, controlsRef = \<lparr>current = Some \<lparr>worldDirection = fwd\<rparr>\<rparr>,
      scene = exampleScene(2 := node ''URDFJoint'' ''hip'' (Some 1) 0 [0] lo up),
      colors = exampleColors(10 := moveableColor)\<rparr>"

text \<open>
  The idle state after the pointer entered the mesh of \<open>hip\<close>, and that state after the
  pointer went down on the mesh at x = 0.
\<close>

definition hoverState :: state where
  "hoverState = idleState\<lparr>selectedJointColor := \<lparr>current = Some ''aa0000''\<rparr>,
                           colors := exampleColors(10 := moveableColor)\<rparr>"

definition pressedState :: state where
  "pressedState = hoverState\<lparr>selectedJoint := Some ''hip'', selectedMesh := Some 4,
                              isDragging := True, lastMouseX := \<lparr>current = 0\<rparr>\<rparr>"

text \<open>A state with the axis of the joint \<open>hip\<close> replaced.\<close>

definition withAxis :: "Vector3 \<Rightarrow> state \<Rightarrow> state" where
  "withAxis a s = s\<lparr>scene := (scene s)(2 := (scene s 2)\<lparr>axis := a\<rparr>)\<rparr>"

section \<open>Properties of the joint locator\<close>

lemma findURDFJointFromObject_None: "findURDFJointFromObject sc None = Some None"
  by (simp add: findURDFJointFromObject.simps)

lemma findURDFJointFromObject_Some:
  "findURDFJointFromObject sc (Some c) =
     (if type (sc c) = ''URDFJoint'' then Some (Some c)
      else findURDFJointFromObject sc (parent (sc c)))"
  by (subst findURDFJointFromObject.simps) simp

lemma findURDFJointFromObject_count_None: "findURDFJointFromObject_count sc None n = Some (None, n)"
  by (simp add: findURDFJointFromObject_count.simps)

lemma findURDFJointFromObject_count_Some:
  "findURDFJointFromObject_count sc (Some c) n =
     (if type (sc c) = ''URDFJoint'' then Some (Some c, Suc n)
      else findURDFJointFromObject_count sc (parent (sc c)) (Suc n))"
  by (subst findURDFJointFromObject_count.simps) simp

lemma locator_on_chain:
  "parentChain sc c xs \<Longrightarrow>
     findURDFJointFromObject sc (Some c) = Some (find (isJoint sc) xs)"
proof (induction sc c xs rule: parentChain.induct)
  case (1 sc c)
  then show ?case by simp
next
  case (2 sc c x)
  then show ?case
    by (simp add: findURDFJointFromObject_Some findURDFJointFromObject_None isJoint_def)
next
  case (3 sc c x y ys)
  then show ?case
    by (simp add: findURDFJointFromObject_Some isJoint_def)
qed

lemma locator_count_on_chain:
  "parentChain sc c xs \<Longrightarrow>
     \<exists>k. findURDFJointFromObject_count sc (Some c) n = Some (find (isJoint sc) xs, n + k)
        \<and> k \<le> length xs"
proof (induction sc c xs arbitrary: n rule: parentChain.induct)
  case (1 sc c)
  then show ?case by simp
next
  case (2 sc c x)
  then show ?case
    by (simp add: findURDFJointFromObject_count_Some findURDFJointFromObject_count_None isJoint_def)
next
  case (3 sc c x y ys)
  show ?case
  proof (cases "type (sc c) = ''URDFJoint''")
    case True
    with 3 show ?thesis
      by (simp add: findURDFJointFromObject_count_Some isJoint_def)
  next
    case False
    from 3 have step: "parent (sc c) = Some y" and rest: "parentChain sc y (y # ys)" and xc: "x = c"
      by simp_all
    from "3.IH" [OF rest, of "Suc n"] obtain k where
      k: "findURDFJointFromObject_count sc (Some y) (Suc n) = Some (find (isJoint sc) (y # ys), Suc n + k)"
      and kle: "k \<le> length (y # ys)"
      by blast
    have "findURDFJointFromObject_count sc (Some c) n = Some (find (isJoint sc) (x # y # ys), n + Suc k)"
      using False step xc k
      by (simp add: findURDFJointFromObject_count_Some [of sc c] isJoint_def)
    moreover have "Suc k \<le> length (x # y # ys)"
      using kle by simp
    ultimately show ?thesis by blast
  qed
qed

text \<open>
  Claim C7. For every node given as start object whose parent references reach the root
  (\<open>xs\<close> is its chain, the node itself first), the locator returns, and returns the first
  node of the chain whose type is \<^verbatim>\<open>URDFJoint\<close>: the nearest one, the start object
  itself when it is a joint, and \<^verbatim>\<open>null\<close> when the chain holds none. The locator of
  \<^verbatim>\<open>RobotScene\<close> returns the same. The loop inspects at most as many nodes as the chain
  has. Both are functions of the store and the start object alone, and return no store:
  nothing is mutated.
\<close>

theorem findURDFJointFromObject_nearest_joint:
  assumes "parentChain sc c xs"
  shows "findURDFJointFromObject sc (Some c) = Some (find (isJoint sc) xs)
       \<and> findURDJointFromObject sc (Some c) = Some (find (isJoint sc) xs)
       \<and> (\<exists>k. findURDFJointFromObject_count sc (Some c) 0 = Some (find (isJoint sc) xs, k)
              \<and> k \<le> length xs)
       \<and> (case find (isJoint sc) xs of
             None \<Rightarrow> \<forall>x \<in> set xs. \<not> isJoint sc x
           | Some j \<Rightarrow> \<exists>ys zs. xs = ys @ j # zs \<and> isJoint sc j \<and> (\<forall>y \<in> set ys. \<not> isJoint sc y))"
proof -
  have a: "findURDFJointFromObject sc (Some c) = Some (find (isJoint sc) xs)"
    using assms by (rule locator_on_chain)
  have b: "\<exists>k. findURDFJointFromObject_count sc (Some c) 0 = Some (find (isJoint sc) xs, k)
             \<and> k \<le> length xs"
    using locator_count_on_chain [OF assms, of 0] by simp
  have c: "(case find (isJoint sc) xs of
             None \<Rightarrow> \<forall>x \<in> set xs. \<not> isJoint sc x
           | Some j \<Rightarrow> \<exists>ys zs. xs = ys @ j # zs \<and> isJoint sc j \<and> (\<forall>y \<in> set ys. \<not> isJoint sc y))"
  proof (cases "find (isJoint sc) xs")
    case None
    then have "\<forall>x \<in> set xs. \<not> isJoint sc x"
      by (simp add: find_None_iff)
    then show ?thesis by (simp add: None)
  next
    case (Some j)
    then obtain i where i: "i < length xs" "isJoint sc (xs ! i)" "j = xs ! i"
        "\<forall>k<i. \<not> isJoint sc (xs ! k)"
      by (auto simp: find_Some_iff)
    have "xs = take i xs @ j # drop (Suc i) xs"
      using i by (simp add: id_take_nth_drop)
    moreover have "\<forall>y \<in> set (take i xs). \<not> isJoint sc y"
      using i by (auto simp: in_set_conv_nth)
    ultimately show ?thesis using Some i by auto
  qed
  show ?thesis using a b c by (simp add: findURDJointFromObject_def)
qed

theorem findURDFJointFromObject_nearest_joint_witness:
  "parentChain exampleScene 4 [4, 3, 2, 1, 0]
   \<and> findURDFJointFromObject exampleScene (Some 4) = Some (Some 2)
   \<and> findURDJointFromObject exampleScene (Some 4) = Some (Some 2)
   \<and> (\<exists>k. findURDFJointFromObject_count exampleScene (Some 4) 0 = Some (Some 2, k) \<and> k \<le> 5)"
proof -
  have ch: "parentChain exampleScene 4 [4, 3, 2, 1, 0]"
    by (simp add: exampleScene_def node_def)
  have f: "find (isJoint exampleScene) [4, 3, 2, 1, 0] = Some 2"
    by (simp add: isJoint_def exampleScene_def node_def)
  note r = findURDFJointFromObject_nearest_joint [OF ch, unfolded f]
  from r have a: "findURDFJointFromObject exampleScene (Some 4) = Some (Some 2)"
    and b: "findURDJointFromObject exampleScene (Some 4) = Some (Some 2)"
    by simp_all
  from r obtain k where k: "findURDFJointFromObject_count exampleScene (Some 4) 0 = Some (Some 2, k)"
    and "k \<le> length [4::nat, 3, 2, 1, 0]"
    by blast
  then have "k \<le> 5" by simp
  with k a b ch show ?thesis by blast
qed

section \<open>Drag updates\<close>


text \<open>What \<^verbatim>\<open>handlePointerMove\<close> does when its guard holds and nothing throws.\<close>

lemma handlePointerMove_guarded:
  assumes "robot s = Some r" "isDragging s" "selectedJoint s = Some nm" "nm \<noteq> []"
    "joints r nm = Some j" "current (controlsRef s) = Some camera"
  shows "handlePointerMove e s =
     Normal (s\<lparr>lastMouseX := \<lparr>current = clientX e\<rparr>,
              scene := setJointValue r nm
                (clamp (first_or_0 (jointValue (scene s j))
                         + (clientX e - current (lastMouseX s)) * 0.01 * (- sgn (vec_z (worldDirection camera))))
                   (lower (limit (scene s j))) (upper (limit (scene s j))))
                (scene s)\<rparr>)"
  using assms by (simp add: handlePointerMove_def Let_def)

text \<open>The same for the later revision, whose direction is \<^verbatim>\<open>getRotationDirection\<close>.\<close>

lemma handlePointerMove_rev2_guarded:
  assumes "robot s = Some r" "isDragging s" "selectedJoint s = Some nm" "nm \<noteq> []"
    "joints r nm = Some j" "current (controlsRef s) = Some camera"
  shows "handlePointerMove_rev2 aq e s =
     Normal (s\<lparr>lastMouseX := \<lparr>current = clientX e\<rparr>,
              scene := setJointValue r nm
                (clamp (first_or_0 (jointValue (scene s j))
                         + (clientX e - current (lastMouseX s)) * 0.01
                           * getRotationDirection aq (scene s j) camera)
                   (lower (limit (scene s j))) (upper (limit (scene s j))))
                (scene s)\<rparr>)"
  using assms by (simp add: handlePointerMove_rev2_def Let_def)

lemma dragState_simps:
  "robot (dragState lo up fwd) = Some exampleRobot"
  "isDragging (dragState lo up fwd)"
  "selectedJoint (dragState lo up fwd) = Some ''hip''"
  "joints exampleRobot ''hip'' = Some 2"
  "current (controlsRef (dragState lo up fwd)) = Some \<lparr>worldDirection = fwd\<rparr>"
  "scene (dragState lo up fwd) 2 = node ''URDFJoint'' ''hip'' (Some 1) 0 [0] lo up"
  "current (lastMouseX (dragState lo up fwd)) = 0"
  by (simp_all add: dragState_def exampleRobot_def)



text \<open>
  The drag update of \<^verbatim>\<open>RobotScene\<close> has no clamp of its own: it passes the
  candidate \<open>current + dx * 0.01\<close> to \<^verbatim>\<open>setJointValue\<close> and leaves the limits to that
  method of the library.
\<close>

lemma handlePointerMove_RobotScene_guarded:
  assumes "robot s = Some r" "isDragging s" "selectedJoint s = Some nm" "nm \<noteq> []"
    "joints r nm = Some j"
  shows "handlePointerMove_RobotScene e s =
     Normal (s\<lparr>lastMouseX := \<lparr>current = clientX e\<rparr>,
              scene := setJointValue r nm
                (first_or_0 (jointValue (scene s j)) + (clientX e - current (lastMouseX s)) * 0.01)
                (scene s)\<rparr>)"
  using assms by (simp add: handlePointerMove_RobotScene_def Let_def)

text \<open>
  Claim C5. A joint with limits \<open>[-1, 1]\<close> and value 0, the sensitivity 0.01 of the
  code, a camera for which the direction is \<open>+1\<close>, and a pointer that moved 250 pixels
  to the right since the last update: the candidate is \<open>0 + 250 * 0.01 * 1 = 2.5\<close>, and
  the update passes the clamped value 1 to \<^verbatim>\<open>setJointValue\<close>.
\<close>


theorem drag_250_pixels_applies_upper_limit:
  assumes "robot s = Some r" "isDragging s" "selectedJoint s = Some nm" "nm \<noteq> []"
    "joints r nm = Some j" "current (controlsRef s) = Some camera"
    and "lower (limit (scene s j)) = -1" "upper (limit (scene s j)) = 1"
    and "first_or_0 (jointValue (scene s j)) = 0"
    and "- sgn (vec_z (worldDirection camera)) = 1"
    and "clientX e - current (lastMouseX s) = 250"
  shows "0 + 250 * 0.01 * 1 = (2.5::real)
       \<and> clamp 2.5 (-1) 1 = 1
       \<and> handlePointerMove e s =
           Normal (s\<lparr>lastMouseX := \<lparr>current = clientX e\<rparr>,
                    scene := setJointValue r nm 1 (scene s)\<rparr>)"
proof -
  have "handlePointerMove e s =
           Normal (s\<lparr>lastMouseX := \<lparr>current = clientX e\<rparr>,
                    scene := setJointValue r nm (clamp 2.5 (-1) 1) (scene s)\<rparr>)"
    using assms(7-11) by (simp add: handlePointerMove_guarded [OF assms(1-6)])
  then show ?thesis by (simp add: clamp_def)
qed

theorem drag_250_pixels_applies_upper_limit_witness:
  "first_or_0 (jointValue (scene (dragState (-1) 1 (Vector3 0 0 (-1))) 2)) = 0
   \<and> - sgn (vec_z (Vector3 0 0 (-1))) = 1
   \<and> clientX \<lparr>clientX = 250\<rparr> - current (lastMouseX (dragState (-1) 1 (Vector3 0 0 (-1)))) = 250
   \<and> handlePointerMove \<lparr>clientX = 250\<rparr> (dragState (-1) 1 (Vector3 0 0 (-1))) =
        Normal ((dragState (-1) 1 (Vector3 0 0 (-1)))
                 \<lparr>lastMouseX := \<lparr>current = 250\<rparr>,
                  scene := setJointValue exampleRobot ''hip'' 1 (scene (dragState (-1) 1 (Vector3 0 0 (-1))))\<rparr>)
   \<and> jointValue (setJointValue exampleRobot ''hip'' 1 (scene (dragState (-1) 1 (Vector3 0 0 (-1)))) 2) = [1]"
proof -
  let ?s = "dragState (-1) 1 (Vector3 0 0 (-1))"
  have h: "robot ?s = Some exampleRobot" "isDragging ?s" "selectedJoint ?s = Some ''hip''"
    "''hip'' \<noteq> []" "joints exampleRobot ''hip'' = Some 2"
    "current (controlsRef ?s) = Some \<lparr>worldDirection = Vector3 0 0 (-1)\<rparr>"
    "lower (limit (scene ?s 2)) = -1" "upper (limit (scene ?s 2)) = 1"
    "first_or_0 (jointValue (scene ?s 2)) = 0"
    "- sgn (vec_z (worldDirection \<lparr>worldDirection = Vector3 0 0 (-1)\<rparr>)) = 1"
    "clientX \<lparr>clientX = 250\<rparr> - current (lastMouseX ?s) = 250"
    by (simp_all add: dragState_simps node_def first_or_0_def)
  have j: "jointValue (setJointValue exampleRobot ''hip'' 1 (scene ?s) 2) = [1]"
    by (simp add: setJointValue_def dragState_simps node_def)
  from drag_250_pixels_applies_upper_limit [OF h] h j show ?thesis by simp
qed

text \<open>The same scenario in the later revision.\<close>

lemma drag_250_pixels_rev2:
  assumes "robot s = Some r" "isDragging s" "selectedJoint s = Some nm" "nm \<noteq> []"
    "joints r nm = Some j" "current (controlsRef s) = Some camera"
    and "lower (limit (scene s j)) = -1" "upper (limit (scene s j)) = 1"
    and "first_or_0 (jointValue (scene s j)) = 0"
    and "getRotationDirection aq (scene s j) camera = 1"
    and "clientX e - current (lastMouseX s) = 250"
  shows "handlePointerMove_rev2 aq e s =
           Normal (s\<lparr>lastMouseX := \<lparr>current = clientX e\<rparr>,
                    scene := setJointValue r nm 1 (scene s)\<rparr>)"
  using assms(7-11) by (simp add: handlePointerMove_rev2_guarded [OF assms(1-6)] clamp_def)

section \<open>The direction of rotation\<close>

text \<open>
  \<^verbatim>\<open>getRotationDirection\<close> of the later revision is the claimed sign: minus the sign
  of the dot product of the rotated axis and the camera's forward vector, \<open>+1\<close> when
  the product is 0; it is never 0.
\<close>

lemma getRotationDirection_sign:
  "getRotationDirection aq joint camera =
     (if dot (aq (axis joint) (quaternion joint)) (worldDirection camera) = 0 then 1
      else - sgn (dot (aq (axis joint) (quaternion joint)) (worldDirection camera)))
   \<and> (getRotationDirection aq joint camera = 1 \<or> getRotationDirection aq joint camera = -1)"
  by (simp add: getRotationDirection_def Let_def sgn_real_def)

text \<open>
  Claim C2 at \<^verbatim>\<open>handlePointerMove\<close> of \<^verbatim>\<open>RobotBuilder.tsx\<close>, whose direction is
  \<^verbatim>\<open>-Math.sign(vector.z)\<close>. With the camera looking along the x axis the direction
  is 0 and a drag of 250 pixels applies the old value 0, where the later revision
  (the claim's formula; the axis is \<open>(0, 0, 1)\<close>, unrotated) falls back to \<open>+1\<close> and
  applies 1. With the axis \<open>(0, 0, -1)\<close> and the camera looking along it, the direction
  is \<open>+1\<close> and the update applies 1, where the later revision has \<open>-1\<close> and applies
  \<open>-1\<close>.
\<close>

theorem handlePointerMove_direction_from_z_only:
  "handlePointerMove \<lparr>clientX = 250\<rparr> (dragState (-1) 1 (Vector3 1 0 0)) =
     Normal ((dragState (-1) 1 (Vector3 1 0 0))
              \<lparr>lastMouseX := \<lparr>current = 250\<rparr>,
               scene := setJointValue exampleRobot ''hip'' 0 (scene (dragState (-1) 1 (Vector3 1 0 0)))\<rparr>)
   \<and> handlePointerMove_rev2 (\<lambda>v q. v) \<lparr>clientX = 250\<rparr> (dragState (-1) 1 (Vector3 1 0 0)) =
     Normal ((dragState (-1) 1 (Vector3 1 0 0))
              \<lparr>lastMouseX := \<lparr>current = 250\<rparr>,
               scene := setJointValue exampleRobot ''hip'' 1 (scene (dragState (-1) 1 (Vector3 1 0 0)))\<rparr>)
   \<and> handlePointerMove \<lparr>clientX = 250\<rparr> (withAxis (Vector3 0 0 (-1)) (dragState (-1) 1 (Vector3 0 0 (-1)))) =
     Normal ((withAxis (Vector3 0 0 (-1)) (dragState (-1) 1 (Vector3 0 0 (-1))))
              \<lparr>lastMouseX := \<lparr>current = 250\<rparr>,
               scene := setJointValue exampleRobot ''hip'' 1
                          (scene (withAxis (Vector3 0 0 (-1)) (dragState (-1) 1 (Vector3 0 0 (-1)))))\<rparr>)
   \<and> handlePointerMove_rev2 (\<lambda>v q. v) \<lparr>clientX = 250\<rparr>
         (withAxis (Vector3 0 0 (-1)) (dragState (-1) 1 (Vector3 0 0 (-1)))) =
     Normal ((withAxis (Vector3 0 0 (-1)) (dragState (-1) 1 (Vector3 0 0 (-1))))
              \<lparr>lastMouseX := \<lparr>current = 250\<rparr>,
               scene := setJointValue exampleRobot ''hip'' (-1)
                          (scene (withAxis (Vector3 0 0 (-1)) (dragState (-1) 1 (Vector3 0 0 (-1)))))\<rparr>)"
proof -
  have a: "handlePointerMove \<lparr>clientX = 250\<rparr> (dragState (-1) 1 (Vector3 1 0 0)) =
     Normal ((dragState (-1) 1 (Vector3 1 0 0))
              \<lparr>lastMouseX := \<lparr>current = 250\<rparr>,
               scene := setJointValue exampleRobot ''hip'' 0 (scene (dragState (-1) 1 (Vector3 1 0 0)))\<rparr>)"
    by (simp add: handlePointerMove_guarded [where r = exampleRobot and nm = "''hip''" and j = 2]
        dragState_simps node_def first_or_0_def clamp_def)
  have b: "handlePointerMove_rev2 (\<lambda>v q. v) \<lparr>clientX = 250\<rparr> (dragState (-1) 1 (Vector3 1 0 0)) =
     Normal ((dragState (-1) 1 (Vector3 1 0 0))
              \<lparr>lastMouseX := \<lparr>current = 250\<rparr>,
               scene := setJointValue exampleRobot ''hip'' 1 (scene (dragState (-1) 1 (Vector3 1 0 0)))\<rparr>)"
    by (simp add: handlePointerMove_rev2_guarded [where r = exampleRobot and nm = "''hip''" and j = 2]
        dragState_simps node_def first_or_0_def clamp_def getRotationDirection_def)
  have w: "robot (withAxis a (dragState lo up fwd)) = Some exampleRobot"
    "isDragging (withAxis a (dragState lo up fwd))"
    "selectedJoint (withAxis a (dragState lo up fwd)) = Some ''hip''"
    "current (controlsRef (withAxis a (dragState lo up fwd))) = Some \<lparr>worldDirection = fwd\<rparr>"
    "scene (withAxis a (dragState lo up fwd)) 2 = (node ''URDFJoint'' ''hip'' (Some 1) 0 [0] lo up)\<lparr>axis := a\<rparr>"
    "current (lastMouseX (withAxis a (dragState lo up fwd))) = 0" for a lo up fwd
    by (simp_all add: withAxis_def dragState_simps)
  have c: "handlePointerMove \<lparr>clientX = 250\<rparr> (withAxis (Vector3 0 0 (-1)) (dragState (-1) 1 (Vector3 0 0 (-1)))) =
     Normal ((withAxis (Vector3 0 0 (-1)) (dragState (-1) 1 (Vector3 0 0 (-1))))
              \<lparr>lastMouseX := \<lparr>current = 250\<rparr>,
               scene := setJointValue exampleRobot ''hip'' 1
                          (scene (withAxis (Vector3 0 0 (-1)) (dragState (-1) 1 (Vector3 0 0 (-1)))))\<rparr>)"
    by (simp add: handlePointerMove_guarded [where r = exampleRobot and nm = "''hip''" and j = 2]
        w dragState_simps(4) node_def first_or_0_def clamp_def)
  have d: "handlePointerMove_rev2 (\<lambda>v q. v) \<lparr>clientX = 250\<rparr>
         (withAxis (Vector3 0 0 (-1)) (dragState (-1) 1 (Vector3 0 0 (-1)))) =
     Normal ((withAxis (Vector3 0 0 (-1)) (dragState (-1) 1 (Vector3 0 0 (-1))))
              \<lparr>lastMouseX := \<lparr>current = 250\<rparr>,
               scene := setJointValue exampleRobot ''hip'' (-1)
                          (scene (withAxis (Vector3 0 0 (-1)) (dragState (-1) 1 (Vector3 0 0 (-1)))))\<rparr>)"
    by (simp add: handlePointerMove_rev2_guarded [where r = exampleRobot and nm = "''hip''" and j = 2]
        w dragState_simps(4) node_def first_or_0_def clamp_def getRotationDirection_def)
  from a b c d show ?thesis by blast
qed

section \<open>Pointer down and pointer over\<close>

lemma idleState_simps:
  "robot idleState = Some exampleRobot" "\<not> isDragging idleState" "\<not> isRotating idleState"
  "scene idleState = exampleScene" "colors idleState = exampleColors"
  "current (selectedJointColor idleState) = None" "selectedMesh idleState = None"
  "selectedJoint idleState = None"
  by (simp_all add: idleState_def initialState_def)

lemma exampleScene_locate:
  "findURDFJointFromObject exampleScene (Some 4) = Some (Some 2)"
  "findURDFJointFromObject exampleScene (Some 6) = Some (Some 5)"
  "findURDFJointFromObject exampleScene (Some 7) = Some None"
  by (simp_all add: findURDFJointFromObject_Some findURDFJointFromObject_None exampleScene_def node_def)

text \<open>
  Claim C4 at \<^verbatim>\<open>handlePointerDown\<close> of \<^verbatim>\<open>RobotScene.tsx\<close>, which tests the joint
  but not its \<^verbatim>\<open>jointValue\<close>: a pointer-down on the mesh of the fixed joint
  \<open>mount\<close> selects the joint, enters dragging and moves the anchor.
\<close>

theorem handlePointerDown_RobotScene_fixed_joint:
  "findURDJointFromObject (scene idleState) (Some 6) = Some (Some 5)
   \<and> jointValue (scene idleState 5) = []
   \<and> handlePointerDown_RobotScene \<lparr>clientX = 5, object = 6\<rparr> idleState =
       Some (idleState\<lparr>selectedJoint := Some ''mount'', isDragging := True,
                       lastMouseX := \<lparr>current = 5\<rparr>\<rparr>)"
  by (simp add: handlePointerDown_RobotScene_def findURDJointFromObject_def idleState_simps
      exampleScene_locate) (simp add: exampleScene_def node_def)

text \<open>
  \<^verbatim>\<open>handlePointerDown\<close> of \<^verbatim>\<open>RobotBuilder\<close> has the guard: with no joint above the
  part, or a joint with an empty \<^verbatim>\<open>jointValue\<close>, the state is returned as it was
  (selection, dragging flag, anchor, colours and all).
\<close>

lemma handlePointerDown_ignored:
  assumes "findURDFJointFromObject (scene s) (Some (object e)) = Some None
     \<or> (\<exists>j. findURDFJointFromObject (scene s) (Some (object e)) = Some (Some j)
             \<and> jointValue (scene s j) = [])"
  shows "handlePointerDown e s = Some s"
  using assms by (auto simp: handlePointerDown_def)


text \<open>
  Claim C8, as the code has it. Hovering the mesh of the fixed joint \<open>mount\<close> in the
  idle state stores the mesh's colour in \<^verbatim>\<open>selectedJointColor.current\<close>, which was
  \<^verbatim>\<open>null\<close>: the state is modified.
\<close>

theorem onPointerOver_fixed_joint_captures:
  "onPointerOver \<lparr>clientX = 0, object = 6\<rparr> idleState =
      Some (idleState\<lparr>selectedJointColor := \<lparr>current = Some ''00bb00''\<rparr>\<rparr>)
   \<and> current (selectedJointColor idleState) = None
   \<and> onPointerOver \<lparr>clientX = 0, object = 6\<rparr> idleState \<noteq> Some idleState"
proof -
  have a: "onPointerOver \<lparr>clientX = 0, object = 6\<rparr> idleState =
      Some (idleState\<lparr>selectedJointColor := \<lparr>current = Some ''00bb00''\<rparr>\<rparr>)"
    by (simp add: onPointerOver_def idleState_simps exampleScene_locate Let_def)
       (simp add: exampleScene_def node_def exampleColors_def)
  have b: "current (selectedJointColor idleState) = None"
    by (simp add: idleState_simps)
  have "current (selectedJointColor (idleState\<lparr>selectedJointColor := \<lparr>current = Some ''00bb00''\<rparr>\<rparr>))
          \<noteq> current (selectedJointColor idleState)"
    by (simp add: b)
  then have "idleState\<lparr>selectedJointColor := \<lparr>current = Some ''00bb00''\<rparr>\<rparr> \<noteq> idleState"
    by metis
  with a b show ?thesis by simp
qed

text \<open>
  Claim C8, amended. For every pointer-enter in the idle state over a part whose
  enclosing joint has an empty \<^verbatim>\<open>jointValue\<close>, no highlight is applied: every colour
  and every field of the interaction state is unchanged but
  \<^verbatim>\<open>selectedJointColor.current\<close>, which becomes the part's current colour. Both
  revisions of \<^verbatim>\<open>RobotBuilder\<close> agree.
\<close>

theorem onPointerOver_fixed_joint:
  assumes "\<not> isDragging s" "\<not> isRotating s"
    and "findURDFJointFromObject (scene s) (Some (object e)) = Some (Some j)"
    and "jointValue (scene s j) = []"
  shows "onPointerOver e s =
           Some (s\<lparr>selectedJointColor := \<lparr>current = Some (colors s (material (scene s (object e))))\<rparr>\<rparr>)
       \<and> onPointerOver_rev2 e s =
           Some (s\<lparr>selectedJointColor := \<lparr>current = Some (colors s (material (scene s (object e))))\<rparr>\<rparr>)"
  using assms by (simp add: onPointerOver_def onPointerOver_rev2_def Let_def)

theorem onPointerOver_fixed_joint_witness:
  "\<not> isDragging idleState \<and> \<not> isRotating idleState
   \<and> findURDFJointFromObject (scene idleState) (Some (object \<lparr>clientX = 0, object = 6\<rparr>)) = Some (Some 5)
   \<and> jointValue (scene idleState 5) = []
   \<and> onPointerOver \<lparr>clientX = 0, object = 6\<rparr> idleState =
       Some (idleState\<lparr>selectedJointColor := \<lparr>current = Some ''00bb00''\<rparr>\<rparr>)
   \<and> colors (idleState\<lparr>selectedJointColor := \<lparr>current = Some ''00bb00''\<rparr>\<rparr>) = colors idleState"
proof -
  have h: "\<not> isDragging idleState" "\<not> isRotating idleState"
    "findURDFJointFromObject (scene idleState) (Some (object \<lparr>clientX = 0, object = 6\<rparr>)) = Some (Some 5)"
    "jointValue (scene idleState 5) = []"
    by (simp_all add: idleState_simps exampleScene_locate) (simp add: exampleScene_def node_def)
  have c: "colors idleState (material (scene idleState (object \<lparr>clientX = 0, object = 6\<rparr>))) = ''00bb00''"
    by (simp add: idleState_simps) (simp add: exampleScene_def node_def exampleColors_def)
  from onPointerOver_fixed_joint [OF h] h show ?thesis
    unfolding c by simp
qed

section \<open>Drags, orbit rotation and colours\<close>

lemma material_setJointValue [simp]: "material (setJointValue r nm v sc x) = material (sc x)"
  by (simp add: setJointValue_def split: option.splits)

lemma handlePointerMove_frame:
  "isDragging (state_of (handlePointerMove e s)) = isDragging s"
  "selectedMesh (state_of (handlePointerMove e s)) = selectedMesh s"
  "selectedJointColor (state_of (handlePointerMove e s)) = selectedJointColor s"
  "colors (state_of (handlePointerMove e s)) = colors s"
  "material (scene (state_of (handlePointerMove e s)) x) = material (scene s x)"
  by (simp_all add: handlePointerMove_def Let_def split: option.splits)

lemma handlePointerDown_cases:
  "handlePointerDown e s = Some s' \<Longrightarrow>
     s' = s \<or> (\<exists>nm. s' = s\<lparr>selectedJoint := Some nm, selectedMesh := Some (object e),
                              isDragging := True, lastMouseX := \<lparr>current = clientX e\<rparr>\<rparr>)"
  by (auto simp: handlePointerDown_def split: option.splits if_splits)

lemma onPointerOver_keeps_drag:
  "onPointerOver e s = Some s' \<Longrightarrow>
     isDragging s' = isDragging s \<and> selectedMesh s' = selectedMesh s"
  by (auto simp: onPointerOver_def Let_def split: option.splits if_splits)

lemma onPointerOut_keeps_drag:
  "isDragging (onPointerOut e s) = isDragging s \<and> selectedMesh (onPointerOut e s) = selectedMesh s"
  by (simp add: onPointerOut_def Let_def)

lemma handlePointerUp_ends_drag:
  "selectedMesh s \<noteq> None \<Longrightarrow> \<not> isDragging (handlePointerUp s) \<and> selectedMesh (handlePointerUp s) = None"
  by (auto simp: handlePointerUp_def truthy_object_def Let_def)

lemma handlePointerUp_idle:
  "selectedMesh s = None \<Longrightarrow> handlePointerUp s = s"
  by (simp add: handlePointerUp_def)

text \<open>While dragging, a mesh is selected.\<close>

lemma step_selected:
  assumes "step ev s = Some s'" and "isDragging s \<longrightarrow> selectedMesh s \<noteq> None"
  shows "isDragging s' \<longrightarrow> selectedMesh s' \<noteq> None"
proof (cases ev)
  case (PointerOver e)
  with assms show ?thesis
    by (auto dest: onPointerOver_keeps_drag split: if_splits)
next
  case (PointerOut e)
  with assms show ?thesis
    by (auto simp: onPointerOut_keeps_drag split: if_splits)
next
  case (PointerDown e)
  with assms show ?thesis
    by (auto dest!: handlePointerDown_cases split: if_splits)
next
  case (MouseMove e)
  with assms show ?thesis
    by (auto simp: handlePointerMove_frame)
next
  case MouseUp
  with assms show ?thesis
    by (cases "selectedMesh s") (auto simp: handlePointerUp_idle handlePointerUp_ends_drag)
qed (use assms in auto)

lemma run_selected:
  "run es s = Some s' \<Longrightarrow> (isDragging s \<longrightarrow> selectedMesh s \<noteq> None) \<Longrightarrow>
     (isDragging s' \<longrightarrow> selectedMesh s' \<noteq> None)"
proof (induction es arbitrary: s)
  case Nil
  then show ?case by simp
next
  case (Cons ev es)
  then obtain t where t: "step ev s = Some t" and r: "run es t = Some s'"
    by (auto split: option.splits)
  from step_selected [OF t Cons.prems(2)] Cons.IH [OF r] show ?case by blast
qed

lemma step_stays_dragging:
  assumes "step ev s = Some s'" "isDragging s" "ev \<noteq> MouseUp"
  shows "isDragging s'"
proof (cases ev)
  case (PointerOver e)
  with assms show ?thesis
    by (auto dest: onPointerOver_keeps_drag split: if_splits)
next
  case (PointerOut e)
  with assms show ?thesis
    by (auto simp: onPointerOut_keeps_drag split: if_splits)
next
  case (PointerDown e)
  with assms show ?thesis
    by (auto dest!: handlePointerDown_cases split: if_splits)
next
  case (MouseMove e)
  with assms show ?thesis
    by (auto simp: handlePointerMove_frame)
qed (use assms in auto)

lemma step_stays_enabled:
  assumes "step ev s = Some s'" "\<not> isDragging s" "\<not> isPointerDown ev"
  shows "\<not> isDragging s'"
proof (cases ev)
  case (PointerOver e)
  with assms show ?thesis
    by (auto dest: onPointerOver_keeps_drag split: if_splits)
next
  case (PointerOut e)
  with assms show ?thesis
    by (auto simp: onPointerOut_keeps_drag split: if_splits)
next
  case (MouseMove e)
  with assms show ?thesis
    by (auto simp: handlePointerMove_frame)
next
  case MouseUp
  with assms show ?thesis
    by (cases "selectedMesh s") (auto simp: handlePointerUp_idle handlePointerUp_ends_drag)
qed (use assms in auto)

lemma trace_stays_dragging:
  "trace es s = Some tr \<Longrightarrow> isDragging s \<Longrightarrow> isDragging s \<longrightarrow> selectedMesh s \<noteq> None \<Longrightarrow>
   MouseUp \<notin> set es \<Longrightarrow>
     (\<forall>t \<in> set tr. isDragging t) \<and> selectedMesh (last (s # tr)) \<noteq> None"
proof (induction es arbitrary: s tr)
  case Nil
  then show ?case by simp
next
  case (Cons ev es)
  then obtain t tr' where t: "step ev s = Some t" and r: "trace es t = Some tr'" and tr: "tr = t # tr'"
    by (auto split: option.splits)
  have dt: "isDragging t"
    using step_stays_dragging [OF t] Cons.prems by auto
  have it: "isDragging t \<longrightarrow> selectedMesh t \<noteq> None"
    using step_selected [OF t] Cons.prems by blast
  from Cons.IH [OF r dt it] Cons.prems(4) dt tr show ?case by auto
qed

lemma trace_stays_enabled:
  "trace es s = Some tr \<Longrightarrow> \<not> isDragging s \<Longrightarrow> \<forall>ev \<in> set es. \<not> isPointerDown ev \<Longrightarrow>
     \<forall>t \<in> set tr. \<not> isDragging t"
proof (induction es arbitrary: s tr)
  case Nil
  then show ?case by simp
next
  case (Cons ev es)
  then obtain t tr' where t: "step ev s = Some t" and r: "trace es t = Some tr'" and tr: "tr = t # tr'"
    by (auto split: option.splits)
  have dt: "\<not> isDragging t"
    using step_stays_enabled [OF t] Cons.prems by auto
  from Cons.IH [OF r dt] Cons.prems(3) dt tr show ?case by auto
qed

lemma reenabled_enabled: "\<forall>t \<in> set xs. enableRotate t \<Longrightarrow> reenabled xs = 0"
  by (induction xs rule: reenabled.induct) auto

lemma reenabled_once:
  "\<forall>t \<in> set (a # xs). \<not> enableRotate t \<Longrightarrow> \<forall>t \<in> set (b # ys). enableRotate t \<Longrightarrow>
     reenabled (a # xs @ b # ys) = 1"
proof (induction xs arbitrary: a)
  case Nil
  then show ?case by (simp add: reenabled_enabled)
next
  case (Cons x xs)
  then show ?case by simp
qed

text \<open>
  Claim C6. The prop \<^verbatim>\<open>enableRotate\<close> is \<^verbatim>\<open>!isDragging\<close>, so orbit rotation is
  enabled exactly when no drag is active. From a reachable state \<open>s0\<close>, let a pointer-down
  begin a drag (\<open>s1\<close>), let any events but a release follow (\<open>es\<close>, through the states
  \<open>tr\<close>), then the release, then any events but a pointer-down (\<open>es'\<close>, through \<open>tr'\<close>).
  Rotation is disabled in every state from the drag's begin to the release, the release
  ends the drag and enables it, it stays enabled afterwards, and along the whole run it
  goes from disabled to enabled exactly once.
\<close>

theorem orbit_rotation_off_exactly_while_dragging:
  assumes reach: "run es0 (initialState sc cl cam) = Some s0"
    and down: "step (PointerDown e) s0 = Some s1" and drag: "isDragging s1"
    and mids: "MouseUp \<notin> set es" and tr: "trace es s1 = Some tr"
    and post: "\<forall>ev \<in> set es'. \<not> isPointerDown ev"
    and tr': "trace es' (handlePointerUp (last (s1 # tr))) = Some tr'"
  shows "enableRotate s0 = (\<not> isDragging s0)
       \<and> (\<forall>s \<in> set (s1 # tr). isDragging s \<and> \<not> enableRotate s)
       \<and> step MouseUp (last (s1 # tr)) = Some (handlePointerUp (last (s1 # tr)))
       \<and> (\<forall>s \<in> set (handlePointerUp (last (s1 # tr)) # tr'). \<not> isDragging s \<and> enableRotate s)
       \<and> reenabled (s1 # tr @ handlePointerUp (last (s1 # tr)) # tr') = 1"
proof -
  have i0: "isDragging s0 \<longrightarrow> selectedMesh s0 \<noteq> None"
    using run_selected [OF reach] by (simp add: initialState_def)
  have i1: "isDragging s1 \<longrightarrow> selectedMesh s1 \<noteq> None"
    using step_selected [OF down i0] .
  from trace_stays_dragging [OF tr drag i1 mids]
  have d: "\<forall>t \<in> set tr. isDragging t" and m: "selectedMesh (last (s1 # tr)) \<noteq> None"
    by simp_all
  let ?u = "handlePointerUp (last (s1 # tr))"
  have u: "\<not> isDragging ?u"
    using handlePointerUp_ends_drag [OF m] by simp
  have p: "\<forall>t \<in> set tr'. \<not> isDragging t"
    using trace_stays_enabled [OF tr' u post] .
  have A: "\<forall>s \<in> set (s1 # tr). isDragging s \<and> \<not> enableRotate s"
    using d drag by (simp add: enableRotate_def)
  have B: "\<forall>s \<in> set (?u # tr'). \<not> isDragging s \<and> enableRotate s"
    using u p by (simp add: enableRotate_def)
  have C: "reenabled (s1 # tr @ ?u # tr') = 1"
    using A B by (intro reenabled_once) auto
  show ?thesis using A B C by (simp add: enableRotate_def)
qed

lemma exampleScene_at:
  "exampleScene 2 = node ''URDFJoint'' ''hip'' (Some 1) 0 [0] (-1) 1"
  "exampleScene 4 = node ''Mesh'' [] (Some 3) 10 [] 0 0"
  "exampleScene 5 = node ''URDFJoint'' ''mount'' (Some 3) 0 [] 0 0"
  "exampleScene 6 = node ''Mesh'' [] (Some 5) 11 [] 0 0"
  by (simp_all add: exampleScene_def)

lemma hoverState_simps:
  "robot hoverState = Some exampleRobot" "\<not> isDragging hoverState" "\<not> isRotating hoverState"
  "scene hoverState = exampleScene" "colors hoverState = exampleColors(10 := moveableColor)"
  "current (selectedJointColor hoverState) = Some ''aa0000''" "selectedMesh hoverState = None"
  by (simp_all add: hoverState_def idleState_simps)

lemma pressedState_simps:
  "robot pressedState = Some exampleRobot" "isDragging pressedState" "\<not> isRotating pressedState"
  "scene pressedState = exampleScene" "colors pressedState = exampleColors(10 := moveableColor)"
  "current (selectedJointColor pressedState) = Some ''aa0000''" "selectedMesh pressedState = Some 4"
  "selectedJoint pressedState = Some ''hip''"
  by (simp_all add: pressedState_def hoverState_simps)

lemma run_to_hoverState:
  "run [Loaded exampleRobot, PointerOver \<lparr>clientX = 0, object = 4\<rparr>]
     (initialState exampleScene exampleColors exampleCamera) = Some hoverState"
proof -
  have "onPointerOver \<lparr>clientX = 0, object = 4\<rparr> idleState = Some hoverState"
    by (simp add: onPointerOver_def idleState_simps exampleScene_locate Let_def exampleScene_at
        node_def hoverState_def exampleColors_def)
  then show ?thesis
    by (simp add: idleState_def [symmetric] idleState_simps)
qed

lemma step_down_hoverState:
  "step (PointerDown \<lparr>clientX = 0, object = 4\<rparr>) hoverState = Some pressedState"
  by (simp add: handlePointerDown_def hoverState_simps exampleScene_locate exampleScene_at
      node_def pressedState_def)

lemma step_out_pressedState:
  "step (PointerOut e) pressedState = Some pressedState"
  by (simp add: onPointerOut_def pressedState_simps)

theorem orbit_rotation_off_exactly_while_dragging_witness:
  "run [Loaded exampleRobot, PointerOver \<lparr>clientX = 0, object = 4\<rparr>]
     (initialState exampleScene exampleColors exampleCamera) = Some hoverState
   \<and> step (PointerDown \<lparr>clientX = 0, object = 4\<rparr>) hoverState = Some pressedState
   \<and> isDragging pressedState
   \<and> MouseUp \<notin> set [PointerOut \<lparr>clientX = 9, object = 4\<rparr>]
   \<and> trace [PointerOut \<lparr>clientX = 9, object = 4\<rparr>] pressedState = Some [pressedState]
   \<and> trace [OrbitStart] (handlePointerUp pressedState)
       = Some [(handlePointerUp pressedState)\<lparr>isRotating := True\<rparr>]
   \<and> enableRotate hoverState
   \<and> \<not> enableRotate pressedState
   \<and> enableRotate (handlePointerUp pressedState)
   \<and> reenabled [pressedState, pressedState, handlePointerUp pressedState,
         (handlePointerUp pressedState)\<lparr>isRotating := True\<rparr>] = 1"
proof -
  have h1: "run [Loaded exampleRobot, PointerOver \<lparr>clientX = 0, object = 4\<rparr>]
     (initialState exampleScene exampleColors exampleCamera) = Some hoverState"
    by (rule run_to_hoverState)
  have h2: "step (PointerDown \<lparr>clientX = 0, object = 4\<rparr>) hoverState = Some pressedState"
    by (rule step_down_hoverState)
  have h3: "isDragging pressedState"
    by (simp add: pressedState_simps)
  have h4: "MouseUp \<notin> set [PointerOut \<lparr>clientX = 9, object = 4\<rparr>]"
    by simp
  have h5: "trace [PointerOut \<lparr>clientX = 9, object = 4\<rparr>] pressedState = Some [pressedState]"
    using step_out_pressedState by simp
  have h6: "\<forall>ev \<in> set [OrbitStart]. \<not> isPointerDown ev"
    by simp
  have h7: "trace [OrbitStart] (handlePointerUp (last (pressedState # [pressedState])))
       = Some [(handlePointerUp pressedState)\<lparr>isRotating := True\<rparr>]"
    by simp
  from orbit_rotation_off_exactly_while_dragging [OF h1 h2 h3 h4 h5 h6 h7]
  have "enableRotate hoverState = (\<not> isDragging hoverState)"
    and "\<not> enableRotate pressedState"
    and "enableRotate (handlePointerUp pressedState)"
    and "reenabled [pressedState, pressedState, handlePointerUp pressedState,
         (handlePointerUp pressedState)\<lparr>isRotating := True\<rparr>] = 1"
    by simp_all
  with h1 h2 h3 h4 h5 h7 show ?thesis
    by (simp add: hoverState_simps)
qed

lemma run_append:
  "run (xs @ ys) s = (case run xs s of None \<Rightarrow> None | Some t \<Rightarrow> run ys t)"
  by (induction xs arbitrary: s) (auto split: option.splits)

lemma step_mid_drag:
  assumes "isDragging st" "ev \<noteq> MouseUp" "\<not> isPointerDown ev"
  shows "\<exists>st'. step ev st = Some st' \<and> isDragging st' \<and> selectedMesh st' = selectedMesh st
           \<and> selectedJointColor st' = selectedJointColor st \<and> colors st' = colors st
           \<and> (\<forall>x. material (scene st' x) = material (scene st x))"
proof (cases ev)
  case (PointerOver e)
  with assms show ?thesis by (simp add: onPointerOver_def)
next
  case (PointerOut e)
  with assms show ?thesis by (simp add: onPointerOut_def)
next
  case (MouseMove e)
  with assms show ?thesis by (simp add: handlePointerMove_frame)
qed (use assms in auto)

lemma run_mid_drag:
  assumes "\<forall>ev \<in> set es. ev \<noteq> MouseUp \<and> \<not> isPointerDown ev" "isDragging st"
  shows "\<exists>st'. run es st = Some st' \<and> isDragging st' \<and> selectedMesh st' = selectedMesh st
           \<and> selectedJointColor st' = selectedJointColor st \<and> colors st' = colors st
           \<and> (\<forall>x. material (scene st' x) = material (scene st x))"
  using assms
proof (induction es arbitrary: st)
  case Nil
  then show ?case by simp
next
  case (Cons ev es)
  from Cons.prems have ev: "ev \<noteq> MouseUp" "\<not> isPointerDown ev"
    and rest: "\<forall>ev \<in> set es. ev \<noteq> MouseUp \<and> \<not> isPointerDown ev"
    by simp_all
  from step_mid_drag [OF Cons.prems(2) ev] obtain t where
    t: "step ev st = Some t" "isDragging t" "selectedMesh t = selectedMesh st"
       "selectedJointColor t = selectedJointColor st" "colors t = colors st"
       "\<forall>x. material (scene t x) = material (scene st x)"
    by blast
  from Cons.IH [OF rest t(2)] obtain st' where
    "run es t = Some st'" "isDragging st'" "selectedMesh st' = selectedMesh t"
       "selectedJointColor st' = selectedJointColor t" "colors st' = colors t"
       "\<forall>x. material (scene st' x) = material (scene t x)"
    by blast
  with t show ?case by simp
qed

lemma drag_release_colors:
  assumes loaded: "robot s \<noteq> None"
    and captured: "current (selectedJointColor s) = Some c"
    and located: "findURDFJointFromObject (scene s) (Some (object e)) = Some (Some j)"
    and movable: "jointValue (scene s j) \<noteq> []"
    and mids: "\<forall>ev \<in> set es. ev \<noteq> MouseUp \<and> \<not> isPointerDown ev"
  shows "\<exists>s'. run (PointerDown e # es @ [MouseUp]) s = Some s'
            \<and> colors s' (material (scene s' (object e))) = c
            \<and> colors s' = (colors s)(material (scene s (object e)) := c)
            \<and> current (selectedJointColor s') = None
            \<and> \<not> isDragging s' \<and> selectedMesh s' = None \<and> selectedJoint s' = None"
proof -
  let ?s1 = "s\<lparr>selectedJoint := Some (name (scene s j)), selectedMesh := Some (object e),
               isDragging := True, lastMouseX := \<lparr>current = clientX e\<rparr>\<rparr>"
  have down: "step (PointerDown e) s = Some ?s1"
    using loaded located movable by (auto simp: handlePointerDown_def)
  from run_mid_drag [OF mids, of ?s1] obtain s2 where
    s2: "run es ?s1 = Some s2" "isDragging s2" "selectedMesh s2 = Some (object e)"
       "selectedJointColor s2 = selectedJointColor s" "colors s2 = colors s"
       "\<forall>x. material (scene s2 x) = material (scene s x)"
    by auto
  have run: "run (PointerDown e # es @ [MouseUp]) s = Some (handlePointerUp s2)"
    using down s2(1) by (simp add: run_append)
  have up: "colors (handlePointerUp s2) = (colors s)(material (scene s (object e)) := c)"
    "scene (handlePointerUp s2) = scene s2"
    "current (selectedJointColor (handlePointerUp s2)) = None"
    "\<not> isDragging (handlePointerUp s2)" "selectedMesh (handlePointerUp s2) = None"
    "selectedJoint (handlePointerUp s2) = None"
    using s2 captured by (simp_all add: handlePointerUp_def truthy_object_def Let_def Color_set_def)
  have "colors (handlePointerUp s2) (material (scene (handlePointerUp s2) (object e))) = c"
    using up(1,2) s2(6) by simp
  with run up show ?thesis
    by blast
qed

text \<open>
  Claim C3. Take a state in which a colour \<open>c\<close> is captured, a pointer-down that begins a
  drag on a part (a joint with a value is found above it), any events before the
  release that are neither a release nor another pointer-down (pointer moves, the
  pointer leaving or entering parts, camera events), and the release. The run returns;
  afterwards the part's displayed colour is \<open>c\<close>, no other colour has changed, the
  captured colour is cleared and the drag is over. A pointer-out in a dragging state
  changes nothing, so the release is what restores the colour.
\<close>

theorem release_restores_captured_color:
  assumes loaded: "robot s \<noteq> None"
    and captured: "current (selectedJointColor s) = Some c"
    and located: "findURDFJointFromObject (scene s) (Some (object e)) = Some (Some j)"
    and movable: "jointValue (scene s j) \<noteq> []"
    and mids: "\<forall>ev \<in> set es. ev \<noteq> MouseUp \<and> \<not> isPointerDown ev"
  shows "(\<exists>s'. run (PointerDown e # es @ [MouseUp]) s = Some s'
            \<and> colors s' (material (scene s' (object e))) = c
            \<and> colors s' = (colors s)(material (scene s (object e)) := c)
            \<and> current (selectedJointColor s') = None
            \<and> \<not> isDragging s' \<and> selectedMesh s' = None \<and> selectedJoint s' = None)
       \<and> (\<forall>st e'. isDragging st \<longrightarrow> onPointerOut e' st = st)"
proof -
  have "\<forall>st e'. isDragging st \<longrightarrow> onPointerOut e' st = st"
    by (simp add: onPointerOut_def)
  with drag_release_colors [OF assms] show ?thesis
    by blast
qed

theorem release_restores_captured_color_witness:
  "robot hoverState \<noteq> None
   \<and> current (selectedJointColor hoverState) = Some ''aa0000''
   \<and> findURDFJointFromObject (scene hoverState) (Some (object \<lparr>clientX = 0, object = 4\<rparr>)) = Some (Some 2)
   \<and> jointValue (scene hoverState 2) \<noteq> []
   \<and> colors hoverState 10 = moveableColor
   \<and> (\<exists>s'. run (PointerDown \<lparr>clientX = 0, object = 4\<rparr>
                 # [PointerOut \<lparr>clientX = 9, object = 4\<rparr>, MouseMove \<lparr>clientX = 250\<rparr>] @ [MouseUp])
              hoverState = Some s'
            \<and> colors s' 10 = ''aa0000''
            \<and> current (selectedJointColor s') = None \<and> \<not> isDragging s')"
proof -
  have h: "robot hoverState \<noteq> None"
    "current (selectedJointColor hoverState) = Some ''aa0000''"
    "findURDFJointFromObject (scene hoverState) (Some (object \<lparr>clientX = 0, object = 4\<rparr>)) = Some (Some 2)"
    "jointValue (scene hoverState 2) \<noteq> []"
    "\<forall>ev \<in> set [PointerOut \<lparr>clientX = 9, object = 4\<rparr>, MouseMove \<lparr>clientX = 250\<rparr>].
        ev \<noteq> MouseUp \<and> \<not> isPointerDown ev"
    by (simp_all add: hoverState_simps exampleScene_locate exampleScene_at node_def)
  have m: "material (scene hoverState (object \<lparr>clientX = 0, object = 4\<rparr>)) = 10"
    by (simp add: hoverState_simps exampleScene_at node_def)
  have k: "colors hoverState 10 = moveableColor"
    by (simp add: hoverState_simps)
  from release_restores_captured_color [OF h, THEN conjunct1] obtain s' where
    "run (PointerDown \<lparr>clientX = 0, object = 4\<rparr>
                 # [PointerOut \<lparr>clientX = 9, object = 4\<rparr>, MouseMove \<lparr>clientX = 250\<rparr>] @ [MouseUp])
              hoverState = Some s'"
    "colors s' = (colors hoverState)(10 := ''aa0000'')"
    "current (selectedJointColor s') = None" "\<not> isDragging s'"
    unfolding m by blast
  then have "\<exists>s'. run (PointerDown \<lparr>clientX = 0, object = 4\<rparr>
                 # [PointerOut \<lparr>clientX = 9, object = 4\<rparr>, MouseMove \<lparr>clientX = 250\<rparr>] @ [MouseUp])
              hoverState = Some s'
            \<and> colors s' 10 = ''aa0000''
            \<and> current (selectedJointColor s') = None \<and> \<not> isDragging s'"
    by auto
  with h(1-4) k show ?thesis by blast
qed

text \<open>
  With the hover that captured the colour in front: entering a part of a movable joint
  in the idle state highlights it, and after the drag and the release every colour is
  what it was before the pointer entered.
\<close>

lemma hover_drag_release_round_trip:
  assumes "robot s \<noteq> None" "\<not> isDragging s" "\<not> isRotating s"
    and located: "findURDFJointFromObject (scene s) (Some (object e)) = Some (Some j)"
    and movable: "jointValue (scene s j) \<noteq> []"
    and mids: "\<forall>ev \<in> set es. ev \<noteq> MouseUp \<and> \<not> isPointerDown ev"
  shows "\<exists>s1 s'. step (PointerOver e) s = Some s1
           \<and> colors s1 (material (scene s (object e))) = moveableColor
           \<and> run (PointerOver e # PointerDown e # es @ [MouseUp]) s = Some s'
           \<and> colors s' = colors s"
proof -
  let ?s1 = "s\<lparr>selectedJointColor := \<lparr>current = Some (colors s (material (scene s (object e))))\<rparr>,
               colors := (colors s)(material (scene s (object e)) := moveableColor)\<rparr>"
  have over: "step (PointerOver e) s = Some ?s1"
    using assms(1-3) located movable by (auto simp: onPointerOver_def Let_def)
  have h: "robot ?s1 \<noteq> None"
    "current (selectedJointColor ?s1) = Some (colors s (material (scene s (object e))))"
    "findURDFJointFromObject (scene ?s1) (Some (object e)) = Some (Some j)"
    "jointValue (scene ?s1 j) \<noteq> []"
    using assms by simp_all
  from drag_release_colors [OF h mids] obtain s' where
    "run (PointerDown e # es @ [MouseUp]) ?s1 = Some s'"
    "colors s' = (colors ?s1)(material (scene ?s1 (object e)) := colors s (material (scene s (object e))))"
    by blast
  then have "run (PointerOver e # PointerDown e # es @ [MouseUp]) s = Some s'" "colors s' = colors s"
    using over by simp_all
  with over show ?thesis by (intro exI [of _ ?s1] exI [of _ s']) simp
qed

lemma onPointerOut_not_dragging:
  "\<not> isDragging s \<Longrightarrow>
     onPointerOut e s =
       s\<lparr>colors := (colors s)(material (scene s (object e)) :=
                      Color_set (current (selectedJointColor s)) (colors s (material (scene s (object e))))),
         selectedJointColor := \<lparr>current = None\<rparr>\<rparr>"
  by (simp add: onPointerOut_def truthy_object_def Let_def)

lemma handlePointerUp_selected:
  "selectedMesh s = Some m \<Longrightarrow>
     handlePointerUp s =
       s\<lparr>colors := (colors s)(material (scene s m) :=
                      Color_set (current (selectedJointColor s)) (colors s (material (scene s m)))),
         selectedJointColor := \<lparr>current = None\<rparr>,
         isDragging := False, selectedJoint := None, selectedMesh := None\<rparr>"
  by (simp add: handlePointerUp_def truthy_object_def Let_def)

text \<open>
  Claim C9. The guards on \<^verbatim>\<open>selectedJointColor\<close> test the ref container, which is
  always truthy: \<^verbatim>\<open>onPointerOut\<close> restores whenever no drag is active and
  \<^verbatim>\<open>handlePointerUp\<close> whenever a mesh is selected, with whatever
  \<^verbatim>\<open>selectedJointColor.current\<close> holds. Runs reach both restores with \<^verbatim>\<open>null\<close>
  there: a hover during a camera orbit captures nothing, so a pointer-out after the orbit
  and a release after a pointer-down on the part both restore from \<^verbatim>\<open>null\<close>; and after
  hover, press and release the ref is cleared while the pointer is still on the part, so
  the pointer-out that follows restores from \<^verbatim>\<open>null\<close> too. The colour passed to the
  restore is therefore an option.
\<close>

theorem restore_runs_with_no_captured_color:
  "(\<forall>s e. \<not> isDragging s \<longrightarrow>
      onPointerOut e s =
        s\<lparr>colors := (colors s)(material (scene s (object e)) :=
                       Color_set (current (selectedJointColor s)) (colors s (material (scene s (object e))))),
          selectedJointColor := \<lparr>current = None\<rparr>\<rparr>)
   \<and> (\<forall>s m. selectedMesh s = Some m \<longrightarrow>
      handlePointerUp s =
        s\<lparr>colors := (colors s)(material (scene s m) :=
                       Color_set (current (selectedJointColor s)) (colors s (material (scene s m)))),
          selectedJointColor := \<lparr>current = None\<rparr>,
          isDragging := False, selectedJoint := None, selectedMesh := None\<rparr>)
   \<and> (\<exists>s. run [Loaded exampleRobot, OrbitStart, PointerOver \<lparr>clientX = 0, object = 4\<rparr>, OrbitEnd]
              (initialState exampleScene exampleColors exampleCamera) = Some s
          \<and> robot s \<noteq> None \<and> \<not> isDragging s \<and> current (selectedJointColor s) = None)
   \<and> (\<exists>s. run [Loaded exampleRobot, PointerOver \<lparr>clientX = 0, object = 4\<rparr>,
               PointerDown \<lparr>clientX = 0, object = 4\<rparr>, MouseUp]
              (initialState exampleScene exampleColors exampleCamera) = Some s
          \<and> robot s \<noteq> None \<and> \<not> isDragging s \<and> current (selectedJointColor s) = None)
   \<and> (\<exists>s. run [Loaded exampleRobot, OrbitStart, PointerOver \<lparr>clientX = 0, object = 4\<rparr>, OrbitEnd,
               PointerDown \<lparr>clientX = 0, object = 4\<rparr>]
              (initialState exampleScene exampleColors exampleCamera) = Some s
          \<and> selectedMesh s = Some 4 \<and> current (selectedJointColor s) = None)"
proof -
  let ?init = "initialState exampleScene exampleColors exampleCamera"
  let ?e4 = "\<lparr>clientX = 0, object = 4\<rparr>"
  have orbit: "run [Loaded exampleRobot, OrbitStart, PointerOver ?e4, OrbitEnd] ?init = Some idleState"
    by (simp add: onPointerOver_def idleState_def initialState_def)
  have a: "\<exists>s. run [Loaded exampleRobot, OrbitStart, PointerOver ?e4, OrbitEnd] ?init = Some s
          \<and> robot s \<noteq> None \<and> \<not> isDragging s \<and> current (selectedJointColor s) = None"
    using orbit by (simp add: idleState_simps)
  have "run [Loaded exampleRobot, PointerOver ?e4, PointerDown ?e4, MouseUp] ?init
          = Some (handlePointerUp pressedState)"
    using run_to_hoverState step_down_hoverState
    by (simp add: run_append [of "[Loaded exampleRobot, PointerOver ?e4]" "[PointerDown ?e4, MouseUp]", simplified])
  moreover have "robot (handlePointerUp pressedState) \<noteq> None"
    "\<not> isDragging (handlePointerUp pressedState)"
    "current (selectedJointColor (handlePointerUp pressedState)) = None"
    by (simp_all add: handlePointerUp_selected [where m = 4] pressedState_simps)
  ultimately have b: "\<exists>s. run [Loaded exampleRobot, PointerOver ?e4, PointerDown ?e4, MouseUp] ?init = Some s
          \<and> robot s \<noteq> None \<and> \<not> isDragging s \<and> current (selectedJointColor s) = None"
    by blast
  have "step (PointerDown ?e4) idleState
          = Some (idleState\<lparr>selectedJoint := Some ''hip'', selectedMesh := Some 4,
                            isDragging := True, lastMouseX := \<lparr>current = 0\<rparr>\<rparr>)"
    by (simp add: handlePointerDown_def idleState_simps exampleScene_locate exampleScene_at node_def)
  then have "run [Loaded exampleRobot, OrbitStart, PointerOver ?e4, OrbitEnd, PointerDown ?e4] ?init
          = Some (idleState\<lparr>selectedJoint := Some ''hip'', selectedMesh := Some 4,
                            isDragging := True, lastMouseX := \<lparr>current = 0\<rparr>\<rparr>)"
    using orbit
    by (simp add: run_append [of "[Loaded exampleRobot, OrbitStart, PointerOver ?e4, OrbitEnd]" "[PointerDown ?e4]", simplified])
  then have c: "\<exists>s. run [Loaded exampleRobot, OrbitStart, PointerOver ?e4, OrbitEnd, PointerDown ?e4] ?init = Some s
          \<and> selectedMesh s = Some 4 \<and> current (selectedJointColor s) = None"
    by (simp add: idleState_simps)
  from a b c onPointerOut_not_dragging handlePointerUp_selected show ?thesis
    by blast
qed

theorem restore_runs_with_no_captured_color_witness:
  "\<not> isDragging idleState
   \<and> current (selectedJointColor idleState) = None
   \<and> onPointerOut \<lparr>clientX = 0, object = 4\<rparr> idleState =
       idleState\<lparr>colors := (colors idleState)(10 := Color_set None (colors idleState 10)),
                 selectedJointColor := \<lparr>current = None\<rparr>\<rparr>
   \<and> Color_set None (colors idleState 10) = ''aa0000''"
proof -
  have h: "\<not> isDragging idleState" "current (selectedJointColor idleState) = None"
    by (simp_all add: idleState_simps)
  have m: "material (scene idleState (object \<lparr>clientX = 0, object = 4\<rparr>)) = 10"
    by (simp add: idleState_simps exampleScene_at node_def)
  from restore_runs_with_no_captured_color [THEN conjunct1, rule_format, OF h(1), of "\<lparr>clientX = 0, object = 4\<rparr>"]
  have "onPointerOut \<lparr>clientX = 0, object = 4\<rparr> idleState =
       idleState\<lparr>colors := (colors idleState)(10 := Color_set None (colors idleState 10)),
                 selectedJointColor := \<lparr>current = None\<rparr>\<rparr>"
    unfolding m h(2) .
  moreover have "Color_set None (colors idleState 10) = ''aa0000''"
    by (simp add: Color_set_def idleState_simps exampleColors_def)
  ultimately show ?thesis using h by blast
qed

end
